theory Spec2Isabelle
  imports Complex_Main
begin

section \<open>Numbers, errors and array access\<close>

text \<open>
  The program computes with Python and numpy floating-point numbers. They are modelled
  as exact real numbers: rounding, overflow and underflow are outside the model. What is
  kept is every place where the program divides, indexes or allocates, with what Python
  or numpy does there when the operation is undefined.

  \<^item> \<open>ZeroDivisionError\<close>: Python's built-in float division by zero, and \<open>0.0 ** -k\<close>.
  \<^item> \<open>ValueError\<close>: \<open>np.zeros\<close> of a negative length.
  \<^item> \<open>IndexError\<close>: an index outside a numpy array.
  \<^item> \<open>KeyError\<close>: a column missing from a DataFrame.
  \<^item> \<open>NumpyNonFinite\<close>: a numpy float64 division by zero. numpy raises nothing there:
    it warns and yields \<open>inf\<close> or \<open>nan\<close>, and the program goes on with values that are
    not real numbers. The model stops at that point with this outcome.
\<close>

datatype error = ZeroDivisionError | ValueError | IndexError | KeyError | NumpyNonFinite

definition bind_err :: "error + 'a \<Rightarrow> ('a \<Rightarrow> error + 'b) \<Rightarrow> error + 'b" where
  "bind_err m f = (case m of Inl e \<Rightarrow> Inl e | Inr v \<Rightarrow> f v)"

text \<open>Python \<open>x ** n\<close> for a float \<open>x\<close> and an integer \<open>n\<close>.\<close>

definition py_pow :: "real \<Rightarrow> int \<Rightarrow> error + real" where
  "py_pow x n = (if x = 0 \<and> n < 0 then Inl ZeroDivisionError else Inr (x powi n))"

text \<open>Python \<open>a / b\<close> on built-in floats.\<close>

definition py_div :: "real \<Rightarrow> real \<Rightarrow> error + real" where
  "py_div a b = (if b = 0 then Inl ZeroDivisionError else Inr (a / b))"

text \<open>\<open>a / b\<close> where an operand is a numpy float64.\<close>

definition np_div :: "real \<Rightarrow> real \<Rightarrow> error + real" where
  "np_div a b = (if b = 0 then Inl NumpyNonFinite else Inr (a / b))"

text \<open>Indexing a one-dimensional numpy array: a negative index counts from the end.\<close>

definition np_get :: "real list \<Rightarrow> int \<Rightarrow> error + real" where
  "np_get arr i =
     (if 0 \<le> i \<and> i < int (length arr) then Inr (arr ! nat i)
      else if i < 0 \<and> - int (length arr) \<le> i then Inr (arr ! nat (int (length arr) + i))
      else Inl IndexError)"

section \<open>Data model\<close>

text \<open>The keyword parameters of \<open>calculate_mortgage_cash_flows_with_defaults\<close>.\<close>

record params =
  initial_balance :: real
  wac :: real
  wam :: int
  prepay_rate_smm :: real
  default_rate_mdr :: real
  months_to_liquidation :: int
  loss_severity :: real
  pi_advanced :: bool

text \<open>An entry of \<open>default_queue\<close>: the dictionary with keys 'amount' and 'recovery_month'.\<close>

record default_entry =
  amount :: real
  recovery_month :: int

text \<open>
  A row of \<open>results\<close>: the dictionary appended each month, one field per key
  (a space in a key is written as an underscore).
\<close>

record monthly =
  Month :: int
  Performing_Balance :: real
  New_Defaults :: real
  In_Foreclosure :: real
  Amort_Factor :: real
  Expected_Amortization :: real
  Voluntary_Prepayments :: real
  Amort_From_Defaults :: real
  Actual_Amort :: real
  Expected_Interest :: real
  Interest_Lost :: real
  Actual_Interest :: real
  Principal_Recovery :: real
  Principal_Loss :: real
  In_Recovery_Month :: "real option"
  Default_Rate :: real
  Prepay_Rate :: real

text \<open>
  The variables that live across iterations of the monthly loop. \<open>perf_bal_np\<close> is not a
  program variable: it records whether \<open>perf_bal_prev\<close> is a numpy float64 (True) or a
  Python number (False), which decides what a division of it by zero does.
\<close>

record state =
  perf_bal_prev :: real
  perf_bal_np :: bool
  fcl_prev :: real
  default_queue :: "default_entry list"
  results :: "monthly list"

section \<open>Scheduled amortization array (source lines 53 to 64)\<close>

definition sch_am_entry :: "real \<Rightarrow> int \<Rightarrow> int \<Rightarrow> error + real" where
  "sch_am_entry c_monthly months i =
     (let remaining_months = months - i in
      if remaining_months > 0 then
        bind_err (py_pow (1 + c_monthly) (- remaining_months)) (\<lambda>p1.
        bind_err (py_pow (1 + c_monthly) (- months)) (\<lambda>p2.
        bind_err (py_div (1 - p1) (1 - p2)) (\<lambda>bal.
        bind_err (py_pow (1 + c_monthly) (- months)) (\<lambda>p3.
        py_div (bal * c_monthly) (1 - p3)))))
      else Inr 0)"

fun fill_sch_am :: "real \<Rightarrow> int \<Rightarrow> int list \<Rightarrow> error + real list" where
  "fill_sch_am c_monthly months [] = Inr []"
| "fill_sch_am c_monthly months (i # is) =
     bind_err (sch_am_entry c_monthly months i) (\<lambda>v.
     bind_err (fill_sch_am c_monthly months is) (\<lambda>vs. Inr (v # vs)))"

definition build_sch_am :: "real \<Rightarrow> int \<Rightarrow> error + real list" where
  "build_sch_am wac' months =
     (if months + 1 < 0 then Inl ValueError
      else fill_sch_am (wac' / 1200) months [0..months])"

section \<open>The monthly loop (source lines 69 to 167)\<close>

text \<open>The scan of the default queue, lines 89 to 96, with \<open>adb\<close> as accumulator.\<close>

fun scan_queue :: "bool \<Rightarrow> int \<Rightarrow> real list \<Rightarrow> int \<Rightarrow> default_entry list \<Rightarrow> real \<Rightarrow> error + real" where
  "scan_queue adv mtl sch_am month [] adb = Inr adb"
| "scan_queue adv mtl sch_am month (d # ds) adb =
     (if recovery_month d = month then
        (if adv \<and> month > 0 \<and> month - 1 < int (length sch_am) then
           bind_err (np_get sch_am (month - 1)) (\<lambda>a.
           bind_err (np_get sch_am (month - mtl)) (\<lambda>b.
           bind_err (np_div a b) (\<lambda>q.
           scan_queue adv mtl sch_am month ds (adb + amount d * q))))
         else scan_queue adv mtl sch_am month ds (adb + amount d))
      else scan_queue adv mtl sch_am month ds adb)"

text \<open>
  Lines 102 to 105. The second component tells whether the factor is a numpy float64
  (it is computed from the array) or the Python integer 0.
\<close>

definition amort_factor_of :: "real list \<Rightarrow> int \<Rightarrow> error + real \<times> bool" where
  "amort_factor_of sch_am month =
     (if month > 0 \<and> month < int (length sch_am) then
        bind_err (np_get sch_am (month - 1)) (\<lambda>prev.
        if prev > 0 then
          bind_err (np_get sch_am month) (\<lambda>cur.
          bind_err (np_get sch_am (month - 1)) (\<lambda>prev'.
          bind_err (np_div cur prev') (\<lambda>q. Inr (1 - q, True))))
        else Inr (0, False))
      else Inr (0, False))"

text \<open>Line 142: \<open>perf_bal / initial_balance\<close>.\<close>

definition pool_factor_of :: "real \<Rightarrow> bool \<Rightarrow> real \<Rightarrow> error + real" where
  "pool_factor_of perf_bal is_np initial_balance' =
     (if is_np then np_div perf_bal initial_balance' else py_div perf_bal initial_balance')"

definition month_body :: "params \<Rightarrow> real list \<Rightarrow> int \<Rightarrow> state \<Rightarrow> error + state" where
  "month_body p sch_am month s =
     (let months = wam p;
          net_mortgage_rate = wac p / 1200;
          mdr = (if month > months - months_to_liquidation p then 0
                 else default_rate_mdr p / 100);
          smm = prepay_rate_smm p / 100;
          new_def = perf_bal_prev s * mdr;
          queue = (if new_def > 0
                   then default_queue s @
                        [\<lparr>amount = new_def,
                          recovery_month = month + months_to_liquidation p\<rparr>]
                   else default_queue s)
      in
      bind_err (scan_queue (pi_advanced p) (months_to_liquidation p) sch_am month queue 0) (\<lambda>adb.
      bind_err (amort_factor_of sch_am month) (\<lambda>(amort_factor, af_np).
      let fcl = new_def + fcl_prev s - adb;
          exp_am = (perf_bal_prev s + fcl_prev s - adb) * amort_factor;
          vol_prepay = perf_bal_prev s * amort_factor * smm;
          am_def = (if pi_advanced p then (new_def + fcl_prev s - adb) * amort_factor else 0);
          act_am = (perf_bal_prev s - new_def) * amort_factor;
          fcl' = fcl - am_def;
          exp_int = (perf_bal_prev s + fcl_prev s) * net_mortgage_rate;
          lost_int = (new_def + fcl_prev s) * net_mortgage_rate;
          act_int = exp_int - lost_int;
          prin_loss = (if adb > 0 then min (adb * (loss_severity p / 100)) adb else 0);
          prin_recov = max (adb - prin_loss) 0;
          perf_bal = perf_bal_prev s - new_def - vol_prepay - act_am;
          is_np = (perf_bal_np s \<or> af_np)
      in
      bind_err (pool_factor_of perf_bal is_np (initial_balance p)) (\<lambda>pool_factor.
      Inr \<lparr>perf_bal_prev = perf_bal,
           perf_bal_np = is_np,
           fcl_prev = fcl',
           default_queue = queue,
           results = results s @
             [\<lparr>Month = month,
               Performing_Balance = perf_bal,
               New_Defaults = new_def,
               In_Foreclosure = fcl',
               Amort_Factor = pool_factor,
               Expected_Amortization = exp_am,
               Voluntary_Prepayments = vol_prepay,
               Amort_From_Defaults = am_def,
               Actual_Amort = act_am,
               Expected_Interest = exp_int,
               Interest_Lost = lost_int,
               Actual_Interest = act_int,
               Principal_Recovery = prin_recov,
               Principal_Loss = prin_loss,
               In_Recovery_Month = (if adb > 0 then Some adb else None),
               Default_Rate = mdr,
               Prepay_Rate = smm\<rparr>]\<rparr>))))"

fun run_months :: "params \<Rightarrow> real list \<Rightarrow> int list \<Rightarrow> state \<Rightarrow> error + state" where
  "run_months p sch_am [] s = Inr s"
| "run_months p sch_am (month # ms) s =
     bind_err (month_body p sch_am month s) (run_months p sch_am ms)"

text \<open>Lines 48 to 50 and 67: the values before the first month.\<close>

definition init_state :: "params \<Rightarrow> state" where
  "init_state p =
     \<lparr>perf_bal_prev = initial_balance p, perf_bal_np = False, fcl_prev = 0,
      default_queue = [], results = []\<rparr>"

text \<open>
  Lines 170 to 177. A DataFrame built from an empty list has no columns, so selecting
  'Default Rate' raises KeyError; otherwise the two rate columns are scaled by 100.
\<close>

definition display_row :: "monthly \<Rightarrow> monthly" where
  "display_row r = r\<lparr>Default_Rate := Default_Rate r * 100, Prepay_Rate := Prepay_Rate r * 100\<rparr>"

definition display_df :: "monthly list \<Rightarrow> error + monthly list" where
  "display_df rs = (if rs = [] then Inl KeyError else Inr (map display_row rs))"

definition calculate_mortgage_cash_flows_with_defaults :: "params \<Rightarrow> error + monthly list" where
  "calculate_mortgage_cash_flows_with_defaults p =
     bind_err (build_sch_am (wac p) (wam p)) (\<lambda>sch_am.
     bind_err (run_months p sch_am [1..wam p] (init_state p)) (\<lambda>s.
     display_df (results s)))"

section \<open>Formulas of the specification\<close>



section \<open>A worked example\<close>

text \<open>
  A two-month pool at a monthly coupon rate of 1 (\<open>wac = 1200\<close>), with 1 percent
  prepayments and defaults and one month to liquidation. The scheduled amortization array
  is \<open>[4/3, 8/9, 0]\<close>; \<open>example_rows\<close> is what the function returns.
\<close>

definition example_params :: params where
  "example_params =
     \<lparr>initial_balance = 100, wac = 1200, wam = 2, prepay_rate_smm = 1, default_rate_mdr = 1,
      months_to_liquidation = 1, loss_severity = 20, pi_advanced = True\<rparr>"









definition example_zero_lag :: params where
  "example_zero_lag = example_params\<lparr>months_to_liquidation := 0\<rparr>"

section \<open>Predicates used in the proofs\<close>




















section \<open>Error propagation and the amortization array\<close>

lemma bind_err_Inl [simp]: "bind_err (Inl e) f = Inl e"
  by (simp add: bind_err_def)

lemma bind_err_Inr [simp]: "bind_err (Inr v) f = f v"
  by (simp add: bind_err_def)












section \<open>The monthly loop\<close>






lemma display_row_simps [simp]:
  "Month (display_row r) = Month r"
  "Performing_Balance (display_row r) = Performing_Balance r"
  "New_Defaults (display_row r) = New_Defaults r"
  "In_Foreclosure (display_row r) = In_Foreclosure r"
  "Amort_Factor (display_row r) = Amort_Factor r"
  "Expected_Amortization (display_row r) = Expected_Amortization r"
  "Voluntary_Prepayments (display_row r) = Voluntary_Prepayments r"
  "Amort_From_Defaults (display_row r) = Amort_From_Defaults r"
  "Actual_Amort (display_row r) = Actual_Amort r"
  "Expected_Interest (display_row r) = Expected_Interest r"
  "Interest_Lost (display_row r) = Interest_Lost r"
  "Actual_Interest (display_row r) = Actual_Interest r"
  "Principal_Recovery (display_row r) = Principal_Recovery r"
  "Principal_Loss (display_row r) = Principal_Loss r"
  "In_Recovery_Month (display_row r) = In_Recovery_Month r"
  "Default_Rate (display_row r) = Default_Rate r * 100"
  "Prepay_Rate (display_row r) = Prepay_Rate r * 100"
  by (simp_all add: display_row_def)




section \<open>The worked example, evaluated\<close>



section \<open>Properties of the scheduled amortization array\<close>




section \<open>The scan of the default queue\<close>



section \<open>One month, unfolded\<close>





section \<open>Bounds on the performing balance\<close>









section \<open>Runs that complete\<close>







section \<open>Runs without defaults\<close>



section \<open>More examples, evaluated\<close>

lemmas run_simps =
  calculate_mortgage_cash_flows_with_defaults_def build_sch_am_def upto_rec1 sch_am_entry_def
  py_pow_def py_div_def month_body_def Let_def amort_factor_of_def np_get_def np_div_def
  pool_factor_of_def init_state_def display_df_def display_row_def



section \<open>Prefixes of a run and the growth of the queue\<close>











section \<open>Claims\<close>

subsection \<open>C1: the performing balance rolls forward\<close>



subsection \<open>C2: the pool factor\<close>




subsection \<open>C3: the scheduled amortization array\<close>




subsection \<open>C4: zero coupon\<close>

text \<open>
  As stated, C4 fails: there is no straight-line schedule. With \<open>wac = 0\<close> the first entry
  of the array is computed as \<open>0.0 / 0.0\<close> on Python floats, which raises.
\<close>

theorem C4_counterexample:
  "calculate_mortgage_cash_flows_with_defaults (example_params\<lparr>wac := 0\<rparr>)
     = Inl ZeroDivisionError"
  by (simp add: calculate_mortgage_cash_flows_with_defaults_def example_params_def
      build_sch_am_def upto_rec1 sch_am_entry_def py_pow_def py_div_def)

text \<open>
  Claim C4, amended. For every input with \<open>wac = 0\<close> and \<open>wam > 0\<close> the computation of the
  scheduled amortization array raises ZeroDivisionError, and so does the whole function:
  the zero-coupon case is not handled, it fails before the monthly loop and returns no rows.
\<close>

theorem C4_zero_coupon_raises:
  assumes "0 < wam p" and "wac p = 0"
  shows "build_sch_am (wac p) (wam p) = Inl ZeroDivisionError \<and>
         calculate_mortgage_cash_flows_with_defaults p = Inl ZeroDivisionError"
proof -
  have "sch_am_entry 0 (wam p) 0 = Inl ZeroDivisionError"
    using assms by (simp add: sch_am_entry_def py_pow_def py_div_def)
  then have "build_sch_am 0 (wam p) = Inl ZeroDivisionError"
    using assms by (simp add: build_sch_am_def upto_rec1)
  then show ?thesis
    using assms by (simp add: calculate_mortgage_cash_flows_with_defaults_def)
qed

theorem C4_witness:
  "0 < wam (example_params\<lparr>wac := 0\<rparr>) \<and> wac (example_params\<lparr>wac := 0\<rparr>) = 0 \<and>
   build_sch_am (wac (example_params\<lparr>wac := 0\<rparr>)) (wam (example_params\<lparr>wac := 0\<rparr>))
     = Inl ZeroDivisionError \<and>
   calculate_mortgage_cash_flows_with_defaults (example_params\<lparr>wac := 0\<rparr>)
     = Inl ZeroDivisionError"
  using C4_zero_coupon_raises [of "example_params\<lparr>wac := 0\<rparr>"]
  by (simp add: example_params_def)

subsection \<open>C5: invalid configurations\<close>




subsection \<open>C6: no prepayments and no defaults\<close>



subsection \<open>C7: liquidation lag beyond the term\<close>



subsection \<open>C8: a default entry matures once\<close>



subsection \<open>C9: the column named 'Amort Factor'\<close>



subsection \<open>C10: the divisor of the amortized default balance\<close>

text \<open>
  Claim C10 does not hold of the code when the liquidation lag is 0. A default of the last
  month then matures in that same month, and line 94 divides by \<open>sch_am[wam]\<close>, which is 0.
  In the example with \<open>months_to_liquidation = 0\<close>: after month 1 the performing balance is
  \<open>197 / 3\<close>; month 2 adds an entry of amount \<open>197 / 300\<close> with recovery month 2; the
  divisor \<open>sch_am[2 - 0]\<close> is 0, and the scan leaves the real numbers.
\<close>

theorem C10_zero_divisor_at_maturity:
  "0 < wac example_zero_lag \<and>
   0 \<le> months_to_liquidation example_zero_lag \<and>
   months_to_liquidation example_zero_lag < wam example_zero_lag \<and>
   pi_advanced example_zero_lag \<and>
   build_sch_am (wac example_zero_lag) (wam example_zero_lag) = Inr [4 / 3, 8 / 9, 0] \<and>
   (case run_months example_zero_lag [4 / 3, 8 / 9, 0] [1..1] (init_state example_zero_lag) of
      Inl e \<Rightarrow> False
    | Inr t \<Rightarrow> perf_bal_prev t = 197 / 3 \<and>
              default_queue t = [\<lparr>amount = 1, recovery_month = 1\<rparr>]) \<and>
   np_get [4 / 3, 8 / 9, 0] (2 - months_to_liquidation example_zero_lag) = Inr 0 \<and>
   scan_queue (pi_advanced example_zero_lag) (months_to_liquidation example_zero_lag)
     [4 / 3, 8 / 9, 0] 2
     [\<lparr>amount = 1, recovery_month = 1\<rparr>, \<lparr>amount = 197 / 300, recovery_month = 2\<rparr>] 0
     = Inl NumpyNonFinite \<and>
   calculate_mortgage_cash_flows_with_defaults example_zero_lag = Inl NumpyNonFinite"
  by (simp add: run_simps example_zero_lag_def example_params_def)

end
